theory Spec2Isabelle
  imports Complex_Main "HOL-Library.AList"
begin

section \<open>The html-keynbutton-response plugin\<close>

text \<open>
  A shallow embedding of \<^verbatim>\<open>src/index.ts\<close>: the class \<^verbatim>\<open>HtmlKeyAndButtonPlugin\<close> with its
  methods \<^verbatim>\<open>trial\<close> and \<^verbatim>\<open>simulate\<close>, and the closures \<^verbatim>\<open>end_trial\<close> and
  \<^verbatim>\<open>after_response\<close> that \<^verbatim>\<open>trial\<close> hands to the browser and to jsPsych.

  The plugin is event driven. \<^verbatim>\<open>trial\<close> builds the page, arms listeners and timers and
  returns; everything else happens in callbacks. The model therefore has a state (the
  page, the closure's variables and what jsPsych has been asked to do), the function
  \<^verbatim>\<open>trial\<close> that builds the first state, and one function per callback.
\<close>

subsection \<open>JavaScript numbers and strings\<close>

text \<open>
  The numbers the plugin computes with are reaction times (clock differences, rounded) and
  grid sizes (a quotient of two integers, rounded up).

  A reading of \<^verbatim>\<open>performance.now()\<close> is a finite double: an integer mantissa times a
  power of two, \<open>Double m e\<close> for \<open>m * 2 ^ e\<close>. The difference of two doubles is their
  exact difference rounded to the nearest double, that is to a mantissa of 53 bits, a tie
  going to the even mantissa. Clock readings and their differences stay far from the ends
  of the exponent range, which the model leaves open. \<^verbatim>\<open>Math.round\<close> gives the nearest
  integer and rounds halves up.
\<close>

datatype double = Double int int

fun real_of_double :: "double \<Rightarrow> real" where
  "real_of_double (Double m e) =
     (if 0 \<le> e then of_int m * 2 ^ nat e else of_int m / 2 ^ nat (- e))"

text \<open>A clock reading of a whole number of milliseconds.\<close>

definition ms :: "int \<Rightarrow> double" where
  "ms n = Double n 0"

function bit_length :: "int \<Rightarrow> nat" where
  "bit_length d = (if d \<le> 0 then 0 else Suc (bit_length (d div 2)))"
  by pat_completeness auto
termination
  by (relation "measure nat") auto

declare bit_length.simps [simp del]

definition round_to_double :: "int \<Rightarrow> int \<Rightarrow> double" where
  "round_to_double d e =
     (if \<bar>d\<bar> < 2 ^ 53 then Double d e
      else
        (let k = bit_length \<bar>d\<bar> - 53;
             q = d div 2 ^ k;
             r = d mod 2 ^ k;
             half = 2 ^ (k - 1)
         in Double (if r < half then q else if half < r then q + 1
                    else if even q then q else q + 1)
              (e + int k)))"

fun double_minus :: "double \<Rightarrow> double \<Rightarrow> double" where
  "double_minus (Double m1 e1) (Double m2 e2) =
     (let e = min e1 e2
      in round_to_double (m1 * 2 ^ nat (e1 - e) - m2 * 2 ^ nat (e2 - e)) e)"

fun Math_round :: "double \<Rightarrow> int" where
  "Math_round (Double m e) =
     (if 0 \<le> e then m * 2 ^ nat e
      else (m + 2 ^ (nat (- e) - 1)) div 2 ^ nat (- e))"

text \<open>
  A grid size is an integer, or what JavaScript makes of a division by zero.
\<close>

datatype jsnum = Num int | Infinity | NaN

definition Math_ceil_div :: "nat \<Rightarrow> int \<Rightarrow> jsnum" where
  "Math_ceil_div n d =
     (if d = 0 then (if n = 0 then NaN else Infinity)
      else Num (- ((- int n) div d)))"

fun string_of_nat :: "nat \<Rightarrow> string" where
  "string_of_nat n =
     (if n < 10 then [''0123456789'' ! n]
      else string_of_nat (n div 10) @ [''0123456789'' ! (n mod 10)])"

declare string_of_nat.simps [simp del]

fun toString :: "jsnum \<Rightarrow> string" where
  "toString (Num i) = (if i < 0 then ''-'' @ string_of_nat (nat (- i)) else string_of_nat (nat i))"
| "toString Infinity = ''Infinity''"
| "toString NaN = ''NaN''"

subsection \<open>The page\<close>

text \<open>
  An element has a tag name, an id, a class list, attributes, inline style properties and
  child nodes. Markup is turned into nodes by the browser's parser, which is an input of
  the model (\<open>parse_html\<close> below).
\<close>

datatype node =
    Text string
  | Element string string "string list" "(string \<times> string) list" "(string \<times> string) list" "node list"

definition createElement :: "string \<Rightarrow> node" where
  "createElement t = Element t [] [] [] [] []"

fun is_element :: "node \<Rightarrow> bool" where
  "is_element (Element t i cs as st ks) = True"
| "is_element (Text s) = False"


fun childNodes :: "node \<Rightarrow> node list" where
  "childNodes (Element t i cs as st ks) = ks"
| "childNodes (Text s) = []"

text \<open>\<^verbatim>\<open>children\<close> are the child nodes that are elements.\<close>

definition children :: "node \<Rightarrow> node list" where
  "children n = filter is_element (childNodes n)"

fun getAttribute :: "string \<Rightarrow> node \<Rightarrow> string option" where
  "getAttribute a (Element t i cs as st ks) = map_of as a"
| "getAttribute a (Text s) = None"

fun set_id :: "string \<Rightarrow> node \<Rightarrow> node" where
  "set_id v (Element t i cs as st ks) = Element t v cs as st ks"
| "set_id v (Text s) = Text s"

fun classList_add :: "string \<Rightarrow> node \<Rightarrow> node" where
  "classList_add c (Element t i cs as st ks) =
     Element t i (if c \<in> set cs then cs else cs @ [c]) as st ks"
| "classList_add c (Text s) = Text s"

fun setAttribute :: "string \<Rightarrow> string \<Rightarrow> node \<Rightarrow> node" where
  "setAttribute a v (Element t i cs as st ks) = Element t i cs (AList.update a v as) st ks"
| "setAttribute a v (Text s) = Text s"

fun removeAttribute :: "string \<Rightarrow> node \<Rightarrow> node" where
  "removeAttribute a (Element t i cs as st ks) = Element t i cs (AList.delete a as) st ks"
| "removeAttribute a (Text s) = Text s"

fun set_style :: "string \<Rightarrow> string \<Rightarrow> node \<Rightarrow> node" where
  "set_style a v (Element t i cs as st ks) = Element t i cs as (AList.update a v st) ks"
| "set_style a v (Text s) = Text s"

fun set_childNodes :: "node list \<Rightarrow> node \<Rightarrow> node" where
  "set_childNodes ks' (Element t i cs as st ks) = Element t i cs as st ks'"
| "set_childNodes ks' (Text s) = Text s"

text \<open>
  What the plugin needs from the browser and the page around the display element: the
  HTML parser, and the classes carried by the display element and its ancestors (they
  count when a selector with a descendant combinator is matched against the document).
  Elements of the document outside the display element are not part of the state.
\<close>

record env =
  parse_html :: "string \<Rightarrow> node list"
  page_classes :: "string list"

text \<open>\<^verbatim>\<open>el.innerHTML = html\<close> and \<^verbatim>\<open>el.insertAdjacentHTML("beforeend", html)\<close>.\<close>

definition set_innerHTML :: "env \<Rightarrow> string \<Rightarrow> node \<Rightarrow> node" where
  "set_innerHTML e html n = set_childNodes (parse_html e html) n"

definition insertAdjacentHTML :: "env \<Rightarrow> string \<Rightarrow> node \<Rightarrow> node" where
  "insertAdjacentHTML e html n = set_childNodes (childNodes n @ parse_html e html) n"

text \<open>
  \<^verbatim>\<open>document.querySelectorAll(".jspsych-html-button-response-button button")\<close> followed by
  a loop that changes each match: \<open>for_buttons f anc n\<close> applies \<open>f\<close> to every
  \<^verbatim>\<open>button\<close> element in the subtree \<open>n\<close> that has an ancestor of class
  \<^verbatim>\<open>jspsych-html-button-response-button\<close>; \<open>anc\<close> says whether such an ancestor has
  been passed already.
\<close>

definition wrapper_class :: string where
  "wrapper_class = ''jspsych-html-button-response-button''"

fun for_buttons :: "(node \<Rightarrow> node) \<Rightarrow> bool \<Rightarrow> node \<Rightarrow> node" where
  "for_buttons f anc (Text s) = Text s"
| "for_buttons f anc (Element t i cs as st ks) =
     (let n = Element t i cs as st (map (for_buttons f (anc \<or> wrapper_class \<in> set cs)) ks)
      in if anc \<and> t = ''button'' then f n else n)"

text \<open>
  \<^verbatim>\<open>el.querySelector("#id")\<close> followed by a change of the match: \<open>update_by_id\<close>
  changes the first element with that id among the descendants, in document order, and
  returns \<open>None\<close> when there is none (\<^verbatim>\<open>querySelector\<close> returns null).
\<close>

fun update_by_id :: "string \<Rightarrow> (node \<Rightarrow> node) \<Rightarrow> node \<Rightarrow> node option"
  and update_by_id_list :: "string \<Rightarrow> (node \<Rightarrow> node) \<Rightarrow> node list \<Rightarrow> node list option" where
  "update_by_id x f (Text s) = None"
| "update_by_id x f (Element t i cs as st ks) =
     (if i = x then Some (f (Element t i cs as st ks))
      else map_option (Element t i cs as st) (update_by_id_list x f ks))"
| "update_by_id_list x f [] = None"
| "update_by_id_list x f (n # ns) =
     (case update_by_id x f n of
        Some n' \<Rightarrow> Some (n' # ns)
      | None \<Rightarrow> map_option ((#) n) (update_by_id_list x f ns))"

subsection \<open>Trial parameters\<close>

text \<open>
  \<^verbatim>\<open>choices\<close> is \<^verbatim>\<open>"ALL_KEYS"\<close>, \<^verbatim>\<open>"NO_KEYS"\<close>, an array of keys, or null (the
  source tests for null). Parameters of type INT are integers, null where the source
  allows it.
\<close>

datatype choices = ALL_KEYS | NO_KEYS | Keys "string list" | Null_choices

record trial_params =
  stimulus :: string
  choices :: choices
  show_button :: bool
  button_html :: "string \<Rightarrow> nat \<Rightarrow> string"
  button_layout :: string
  grid_rows :: "int option"
  grid_columns :: "int option"
  enable_button_after :: int
  prompt :: "string option"
  stimulus_duration :: "int option"
  trial_duration :: "int option"
  response_ends_trial :: bool

text \<open>The defaults of \<^verbatim>\<open>info.parameters\<close> (\<^verbatim>\<open>stimulus\<close> has none).\<close>

definition default_button_html :: "string \<Rightarrow> nat \<Rightarrow> string" where
  "default_button_html choice choice_index = ''<button class=\"jspsych-btn\">'' @ choice @ ''</button>''"

definition default_params :: "string \<Rightarrow> trial_params" where
  "default_params stim =
     \<lparr> stimulus = stim, choices = ALL_KEYS, show_button = True,
       button_html = default_button_html, button_layout = ''grid'',
       grid_rows = Some 1, grid_columns = None, enable_button_after = 0,
       prompt = None, stimulus_duration = None, trial_duration = None,
       response_ends_trial = True \<rparr>"

subsection \<open>State\<close>

text \<open>
  \<^verbatim>\<open>response\<close> is the closure's record of the response; the \<^verbatim>\<open>info\<close> objects handed to
  \<^verbatim>\<open>after_response\<close> have the same shape (\<^verbatim>\<open>response = info\<close> stores one as the other).
  \<^verbatim>\<open>trial_data\<close> is what \<^verbatim>\<open>end_trial\<close> hands to \<^verbatim>\<open>jsPsych.finishTrial\<close>.
\<close>

record response_rec =
  rt :: "real option"
  key :: "string option"

record trial_data =
  data_rt :: "real option"
  data_stimulus :: string
  data_response :: "string option"

text \<open>
  The three closures passed to \<^verbatim>\<open>pluginAPI.setTimeout\<close>, and the argument of
  \<^verbatim>\<open>pluginAPI.getKeyboardResponse\<close>.
\<close>

datatype callback = Enable_buttons | Hide_stimulus | End_trial

datatype handler = After_response

record listener =
  callback_function :: handler
  valid_responses :: choices
  rt_method :: string
  persist :: bool
  allow_held_key :: bool

text \<open>
  The display element's children are the stimulus element and the button group, which the
  closure holds by reference, and nodes parsed from markup.

  \<open>click_listeners\<close> are the \<^verbatim>\<open>click\<close> listeners added to children of the button group:
  the index of the child among the group's child nodes and the \<^verbatim>\<open>info\<close> object the
  listener passes on, for the listeners that a click on the page can reach.
  \<open>timeouts\<close> are the pending \<^verbatim>\<open>pluginAPI.setTimeout\<close> calls with
  their delays, \<open>keyboard\<close> is the listener registered with jsPsych's keyboard service,
  and \<open>finished\<close> lists the calls of \<^verbatim>\<open>jsPsych.finishTrial\<close> in order.
\<close>

datatype child = Stimulus_ref | Button_group_ref | Parsed node

record page =
  display_element :: "child list"
  stimulusElement :: node
  buttonGroupElement :: "node option"
  click_listeners :: "(nat \<times> response_rec) list"
  timeouts :: "(callback \<times> int) list"
  keyboard :: "listener option"
  finished :: "trial_data list"

text \<open>
  The state once \<^verbatim>\<open>trial\<close> has returned adds the variables of its closure;
  \<open>keyboardListener = None\<close> is \<^verbatim>\<open>undefined\<close>.
\<close>

record world = page +
  start_time :: double
  response :: response_rec
  keyboardListener :: "listener option"

datatype error = Error string | TypeError

text \<open>The two loops over \<^verbatim>\<open>document.querySelectorAll(...)\<close>, on the document.\<close>

definition for_document_buttons :: "env \<Rightarrow> (node \<Rightarrow> node) \<Rightarrow> 'a page_scheme \<Rightarrow> 'a page_scheme" where
  "for_document_buttons e f pg =
     (let anc = (wrapper_class \<in> set (page_classes e)) in
      pg\<lparr> display_element :=
            map (\<lambda>c. case c of Parsed n \<Rightarrow> Parsed (for_buttons f anc n) | _ \<Rightarrow> c) (display_element pg),
          stimulusElement :=
            (if Stimulus_ref \<in> set (display_element pg)
             then for_buttons f anc (stimulusElement pg) else stimulusElement pg),
          buttonGroupElement :=
            (if Button_group_ref \<in> set (display_element pg)
             then map_option (for_buttons f anc) (buttonGroupElement pg)
             else buttonGroupElement pg) \<rparr>)"

text \<open>
  \<^verbatim>\<open>display_element.querySelector("#...").style.visibility = "hidden"\<close>: the children
  of the display element are searched in order; \<open>None\<close> is the TypeError of a null match.
\<close>

fun query_update :: "string \<Rightarrow> (node \<Rightarrow> node) \<Rightarrow> child list \<Rightarrow> child list \<Rightarrow> 'a page_scheme \<Rightarrow> 'a page_scheme option" where
  "query_update x f seen [] pg = None"
| "query_update x f seen (Parsed n # cs) pg =
     (case update_by_id x f n of
        Some n' \<Rightarrow> Some (pg\<lparr> display_element := seen @ Parsed n' # cs \<rparr>)
      | None \<Rightarrow> query_update x f (seen @ [Parsed n]) cs pg)"
| "query_update x f seen (Stimulus_ref # cs) pg =
     (case update_by_id x f (stimulusElement pg) of
        Some n' \<Rightarrow> Some (pg\<lparr> stimulusElement := n' \<rparr>)
      | None \<Rightarrow> query_update x f (seen @ [Stimulus_ref]) cs pg)"
| "query_update x f seen (Button_group_ref # cs) pg =
     (case Option.bind (buttonGroupElement pg) (update_by_id x f) of
        Some n' \<Rightarrow> Some (pg\<lparr> buttonGroupElement := Some n' \<rparr>)
      | None \<Rightarrow> query_update x f (seen @ [Button_group_ref]) cs pg)"

subsection \<open>The method \<^verbatim>\<open>trial\<close>: rendering\<close>

text \<open>The stimulus element is created, filled and appended to the display element.\<close>

definition stimulus_id :: string where
  "stimulus_id = ''jspsych-html-keynbutton-response-stimulus''"

definition display_stimulus :: "env \<Rightarrow> trial_params \<Rightarrow> node list \<Rightarrow> page" where
  "display_stimulus e p pre =
     \<lparr> display_element = map Parsed pre @ [Stimulus_ref],
       stimulusElement = set_innerHTML e (stimulus p) (set_id stimulus_id (createElement ''div'')),
       buttonGroupElement = None,
       click_listeners = [],
       timeouts = [],
       keyboard = None,
       finished = [] \<rparr>"

text \<open>
  The layout of the button group for \<open>n\<close> choices. In the quotients a null divisor counts
  as 0, as JavaScript has it; the grid check raises before one is used. The error comes
  with the group as it is when the exception is thrown.
\<close>

definition grid_error :: string where
  "grid_error = ''You cannot set `grid_rows` to `null` without providing a value for `grid_columns`.''"

definition number_or_0 :: "int option \<Rightarrow> int" where
  "number_or_0 v = (case v of None \<Rightarrow> 0 | Some i \<Rightarrow> i)"

definition layout_group :: "trial_params \<Rightarrow> nat \<Rightarrow> node \<Rightarrow> (error \<times> node) + node" where
  "layout_group p n g =
     (if button_layout p = ''grid'' then
        (let g1 = classList_add ''jspsych-btn-group-grid'' g in
         if grid_rows p = None \<and> grid_columns p = None then Inl (Error grid_error, g1)
         else
           (let n_cols = (case grid_columns p of
                            None \<Rightarrow> Math_ceil_div n (number_or_0 (grid_rows p))
                          | Some c \<Rightarrow> Num c);
                n_rows = (case grid_rows p of
                            None \<Rightarrow> Math_ceil_div n (number_or_0 (grid_columns p))
                          | Some r \<Rightarrow> Num r)
            in Inr (set_style ''grid-template-rows'' (''repeat('' @ toString n_rows @ '', 1fr)'')
                     (set_style ''grid-template-columns'' (''repeat('' @ toString n_cols @ '', 1fr)'') g1))))
      else if button_layout p = ''flex'' then Inr (classList_add ''jspsych-btn-group-flex'' g)
      else Inr g)"

text \<open>
  The loop over \<^verbatim>\<open>trial.choices.entries()\<close>. Each round appends the parsed button markup
  to the group, takes the group's last child, sets its \<^verbatim>\<open>data-choice\<close> and adds a click
  listener to it. When the last child is missing or is not an element, the assignment to
  \<^verbatim>\<open>buttonElement.dataset.choice\<close> raises a TypeError.
\<close>

fun add_buttons :: "env \<Rightarrow> trial_params \<Rightarrow> (nat \<times> string) list \<Rightarrow> node \<times> (nat \<times> response_rec) list
    \<Rightarrow> (error \<times> node \<times> (nat \<times> response_rec) list) + (node \<times> (nat \<times> response_rec) list)" where
  "add_buttons e p [] (g, ls) = Inr (g, ls)"
| "add_buttons e p ((choiceIndex, choice) # rest) (g, ls) =
     (let g1 = insertAdjacentHTML e (button_html p choice choiceIndex) g;
          ks = childNodes g1
      in if ks \<noteq> [] \<and> is_element (last ks) then
           add_buttons e p rest
             (set_childNodes (butlast ks @ [setAttribute ''data-choice'' (string_of_nat choiceIndex) (last ks)]) g1,
              ls @ [(length ks - 1, \<lparr> rt = None, key = Some choice \<rparr>)])
         else Inl (TypeError, g1, ls))"

definition display_buttons :: "env \<Rightarrow> trial_params \<Rightarrow> page \<Rightarrow> (error \<times> page) + page" where
  "display_buttons e p pg =
     (if show_button p \<and> choices p \<noteq> Null_choices \<and> choices p \<noteq> ALL_KEYS \<and> choices p \<noteq> NO_KEYS then
        (case choices p of
           Keys ks \<Rightarrow>
             (case layout_group p (length ks)
                     (set_id ''jspsych-html-button-response-btngroup'' (createElement ''div'')) of
                Inl (err, g) \<Rightarrow> Inl (err, pg\<lparr> buttonGroupElement := Some g \<rparr>)
              | Inr g \<Rightarrow>
                  (case add_buttons e p (enumerate 0 ks) (g, []) of
                     Inl (err, g', ls) \<Rightarrow>
                       Inl (err, pg\<lparr> buttonGroupElement := Some g', click_listeners := ls \<rparr>)
                   | Inr (g', ls) \<Rightarrow>
                       Inr (pg\<lparr> buttonGroupElement := Some g', click_listeners := ls,
                               display_element := display_element pg @ [Button_group_ref] \<rparr>)))
         | _ \<Rightarrow> Inr pg)
      else Inr pg)"

text \<open>The block guarded by \<^verbatim>\<open>trial.enable_button_after > 0\<close>, and the prompt.\<close>

definition disable_buttons :: "env \<Rightarrow> trial_params \<Rightarrow> page \<Rightarrow> page" where
  "disable_buttons e p pg =
     (if enable_button_after p > 0 then
        (let pg1 = for_document_buttons e (setAttribute ''disabled'' ''disabled'') pg
         in pg1\<lparr> timeouts := timeouts pg1 @ [(Enable_buttons, enable_button_after p)] \<rparr>)
      else pg)"

definition show_prompt :: "env \<Rightarrow> trial_params \<Rightarrow> page \<Rightarrow> page" where
  "show_prompt e p pg =
     (case prompt p of
        None \<Rightarrow> pg
      | Some html \<Rightarrow> pg\<lparr> display_element := display_element pg @ map Parsed (parse_html e html) \<rparr>)"

subsection \<open>The method \<^verbatim>\<open>trial\<close>: listeners and timers\<close>

text \<open>
  \<^verbatim>\<open>trial.choices != "NO_KEYS"\<close> is a loose comparison: an array is compared through its
  \<^verbatim>\<open>toString\<close>, the elements joined by commas.
\<close>

fun Array_toString :: "string list \<Rightarrow> string" where
  "Array_toString [] = []"
| "Array_toString [k] = k"
| "Array_toString (k # ks) = k @ '','' @ Array_toString ks"

definition loosely_NO_KEYS :: "choices \<Rightarrow> bool" where
  "loosely_NO_KEYS c =
     (case c of NO_KEYS \<Rightarrow> True | Keys ks \<Rightarrow> Array_toString ks = ''NO_KEYS'' | _ \<Rightarrow> False)"

text \<open>
  \<^verbatim>\<open>pluginAPI.getKeyboardResponse\<close>, as jsPsych has it with its default of
  case-insensitive responses: when it registers a listener it lower-cases the valid
  responses unless they are a string, which raises a TypeError for null; later it calls
  the listener for a key whose lower case is among them, with the key as typed. Keys
  are ASCII here: \<^verbatim>\<open>toLowerCase\<close> changes the letters A to Z.
\<close>

definition toLowerCase :: "string \<Rightarrow> string" where
  "toLowerCase k =
     map (\<lambda>c. let n = (of_char c :: nat) in if 65 \<le> n \<and> n \<le> 90 then char_of (n + 32) else c) k"

definition qualifies :: "choices \<Rightarrow> string \<Rightarrow> bool" where
  "qualifies c k =
     (case c of
        ALL_KEYS \<Rightarrow> True
      | Keys ks \<Rightarrow> toLowerCase k \<in> set (map toLowerCase ks)
      | _ \<Rightarrow> False)"

definition getKeyboardResponse :: "listener \<Rightarrow> error + listener" where
  "getKeyboardResponse l = (if valid_responses l = Null_choices then Inl TypeError else Inr l)"

definition response_listener :: "trial_params \<Rightarrow> listener" where
  "response_listener p =
     \<lparr> callback_function = After_response, valid_responses = choices p,
       rt_method = ''performance'', persist = False, allow_held_key = False \<rparr>"

text \<open>
  The rendering part of \<^verbatim>\<open>trial\<close>: stimulus, buttons, the block that disables them,
  and the prompt.
\<close>

definition render :: "env \<Rightarrow> trial_params \<Rightarrow> node list \<Rightarrow> (error \<times> page) + page" where
  "render e p pre =
     (case display_buttons e p (display_stimulus e p pre) of
        Inl err \<Rightarrow> Inl err
      | Inr pg \<Rightarrow> Inr (show_prompt e p (disable_buttons e p pg)))"

text \<open>
  The rest of \<^verbatim>\<open>trial\<close> after rendering: the clock is read (\<open>now\<close>), the response
  record is created, the keyboard listener is registered unless \<^verbatim>\<open>choices\<close> is
  \<^verbatim>\<open>"NO_KEYS"\<close>, and the two duration timers are set. When the registration raises, no
  timer of the two has been set.
\<close>

definition arm :: "trial_params \<Rightarrow> double \<Rightarrow> page \<Rightarrow> (error \<times> page) + world" where
  "arm p now pg =
     (case (if \<not> loosely_NO_KEYS (choices p)
            then map_sum id Some (getKeyboardResponse (response_listener p))
            else Inr None) of
        Inl err \<Rightarrow> Inl (err, pg)
      | Inr l \<Rightarrow>
          (let t1 = (case stimulus_duration p of
                       None \<Rightarrow> timeouts pg
                     | Some d \<Rightarrow> timeouts pg @ [(Hide_stimulus, d)]);
               t2 = (case trial_duration p of
                       None \<Rightarrow> t1
                     | Some d \<Rightarrow> t1 @ [(End_trial, d)])
           in Inr \<lparr> display_element = display_element pg,
                    stimulusElement = stimulusElement pg,
                    buttonGroupElement = buttonGroupElement pg,
                    click_listeners = click_listeners pg,
                    timeouts = t2,
                    keyboard = l,
                    finished = finished pg,
                    start_time = now,
                    response = \<lparr> rt = None, key = None \<rparr>,
                    keyboardListener = l \<rparr>))"

text \<open>
  \<^verbatim>\<open>trial(display_element, trial)\<close>: \<open>pre\<close> is what the display element holds when the
  method is called and \<open>now\<close> the reading of \<^verbatim>\<open>performance.now()\<close>. An exception
  comes with the page as it is when thrown.
\<close>

definition trial :: "env \<Rightarrow> trial_params \<Rightarrow> node list \<Rightarrow> double \<Rightarrow> (error \<times> page) + world" where
  "trial e p pre now =
     (case render e p pre of
        Inl err \<Rightarrow> Inl err
      | Inr pg \<Rightarrow> arm p now pg)"

subsection \<open>The callbacks\<close>

text \<open>
  What the plugin asks of jsPsych when a trial ends. \<^verbatim>\<open>jsPsych.finishTrial\<close> takes the data
  and ends the trial: jsPsych clears the timeouts of the plugin API, cancels the keyboard
  listeners and empties the display element, so that no listener of the trial can be
  reached from the page any more. The closure keeps its references to the stimulus
  element and the button group.
\<close>

definition cancelKeyboardResponse :: "listener \<Rightarrow> world \<Rightarrow> world" where
  "cancelKeyboardResponse l s = (if keyboard s = Some l then s\<lparr> keyboard := None \<rparr> else s)"

definition finishTrial :: "trial_data \<Rightarrow> world \<Rightarrow> world" where
  "finishTrial d s =
     s\<lparr> finished := finished s @ [d], timeouts := [], keyboard := None,
        click_listeners := [], display_element := [] \<rparr>"

definition end_trial :: "trial_params \<Rightarrow> world \<Rightarrow> world" where
  "end_trial p s =
     (let s1 = (case keyboardListener s of
                  None \<Rightarrow> s
                | Some l \<Rightarrow> cancelKeyboardResponse l s);
          trial_data = \<lparr> data_rt = rt (response s1), data_stimulus = stimulus p,
                         data_response = key (response s1) \<rparr>
      in finishTrial trial_data s1)"

definition disable_children :: "node \<Rightarrow> node" where
  "disable_children g =
     set_childNodes
       (map (\<lambda>button. if is_element button then setAttribute ''disabled'' ''disabled'' button else button)
          (childNodes g)) g"

definition after_response :: "trial_params \<Rightarrow> response_rec \<Rightarrow> double \<Rightarrow> world \<Rightarrow> world" where
  "after_response p info end_time s =
     (let s1 = s\<lparr> stimulusElement := classList_add ''responded'' (stimulusElement s) \<rparr>;
          s2 = (if key (response s1) = None then s1\<lparr> response := info \<rparr> else s1);
          s3 = s2\<lparr> response := (response s2)\<lparr> rt := Some (of_int (Math_round (double_minus end_time (start_time s2)))) \<rparr> \<rparr>;
          s4 = (if show_button p \<and> buttonGroupElement s3 \<noteq> None
                then s3\<lparr> buttonGroupElement := map_option disable_children (buttonGroupElement s3) \<rparr>
                else s3)
      in if response_ends_trial p then end_trial p s4 else s4)"

definition enable_buttons :: "env \<Rightarrow> world \<Rightarrow> world" where
  "enable_buttons e s = for_document_buttons e (removeAttribute ''disabled'') s"

definition hide_stimulus :: "world \<Rightarrow> world" where
  "hide_stimulus s =
     (case query_update stimulus_id (set_style ''visibility'' ''hidden'') [] (display_element s) s of
        None \<Rightarrow> s
      | Some s' \<Rightarrow> s')"

fun run_callback :: "env \<Rightarrow> trial_params \<Rightarrow> callback \<Rightarrow> world \<Rightarrow> world" where
  "run_callback e p Enable_buttons s = enable_buttons e s"
| "run_callback e p Hide_stimulus s = hide_stimulus s"
| "run_callback e p End_trial s = end_trial p s"

subsection \<open>Events\<close>

text \<open>
  After \<^verbatim>\<open>trial\<close> has returned, the browser and jsPsych call back: a key goes down
  (with the reaction time jsPsych measured and the clock reading the handler will see),
  a child of the button group is clicked, or a timeout fires.

  jsPsych's keyboard service calls the registered listener for a key that qualifies, and
  drops a listener that does not persist once it has called it. A click runs the
  listeners of the child it reaches one after the other, in the order they were added,
  also when the first of them ends the trial; which clicks the browser delivers to a
  disabled button is left to the sequence of events. A timeout fires once.
\<close>

datatype event = Key_down string "real option" double | Click nat double | Timeout callback

fun take_timeout :: "callback \<Rightarrow> (callback \<times> int) list \<Rightarrow> (callback \<times> int) list" where
  "take_timeout cb [] = []"
| "take_timeout cb ((c, d) # ts) = (if c = cb then ts else (c, d) # take_timeout cb ts)"

fun step :: "env \<Rightarrow> trial_params \<Rightarrow> world \<Rightarrow> event \<Rightarrow> world" where
  "step e p s (Key_down k host_rt now) =
     (case keyboard s of
        None \<Rightarrow> s
      | Some l \<Rightarrow>
          if qualifies (valid_responses l) k
          then after_response p \<lparr> rt = host_rt, key = Some k \<rparr> now
                 (if persist l then s else s\<lparr> keyboard := None \<rparr>)
          else s)"
| "step e p s (Click j now) =
     foldl (\<lambda>s' info. after_response p info now s') s
       (map snd (filter (\<lambda>l. fst l = j) (click_listeners s)))"
| "step e p s (Timeout cb) =
     (if cb \<in> fst ` set (timeouts s)
      then run_callback e p cb (s\<lparr> timeouts := take_timeout cb (timeouts s) \<rparr>)
      else s)"

definition run :: "env \<Rightarrow> trial_params \<Rightarrow> world \<Rightarrow> event list \<Rightarrow> world" where
  "run e p s evs = foldl (step e p) s evs"

subsection \<open>The method \<^verbatim>\<open>simulate\<close>\<close>

text \<open>
  The simulation draws its data from jsPsych: a reaction time from
  \<^verbatim>\<open>randomization.sampleExGaussian\<close>, a key from \<^verbatim>\<open>pluginAPI.getValidKey\<close>, merged
  with the simulation options by \<^verbatim>\<open>pluginAPI.mergeSimulationData\<close> and reconciled with
  the trial by \<^verbatim>\<open>pluginAPI.ensureSimulationDataConsistency\<close>. These four, and the content
  of jsPsych's display element, are inputs of the model; \<open>'o\<close> is the type of the
  simulation options.
\<close>

record 'o jsPsych =
  sampleExGaussian :: "real \<Rightarrow> real \<Rightarrow> real \<Rightarrow> bool \<Rightarrow> real"
  getValidKey :: "choices \<Rightarrow> string option"
  mergeSimulationData :: "trial_data \<Rightarrow> 'o \<Rightarrow> trial_data"
  ensureSimulationDataConsistency :: "trial_params \<Rightarrow> trial_data \<Rightarrow> trial_data"
  getDisplayElement :: "node list"

text \<open>
  What a simulation does, in the order it does it: it creates the simulation data, runs
  the method \<^verbatim>\<open>trial\<close> (which leaves a state), calls \<^verbatim>\<open>load_callback\<close>, calls
  \<^verbatim>\<open>pluginAPI.pressKey\<close> with a key and a delay, hands data to \<^verbatim>\<open>jsPsych.finishTrial\<close>.
  \<open>raised\<close> is the exception that has left the method, if any.
\<close>

datatype action =
    Data_created trial_data
  | Trial_run world
  | Load_callback
  | Press_key "string option" real
  | Finish_trial trial_data

record simulation =
  actions :: "action list"
  raised :: "(error \<times> page) option"

definition create_simulation_data :: "'o jsPsych \<Rightarrow> trial_params \<Rightarrow> 'o \<Rightarrow> trial_data" where
  "create_simulation_data js p simulation_options =
     (let default_data = \<lparr> data_rt = Some (sampleExGaussian js 500 50 (1 / 150) True),
                           data_stimulus = stimulus p,
                           data_response = getValidKey js (choices p) \<rparr>;
          data = mergeSimulationData js default_data simulation_options
      in ensureSimulationDataConsistency js p data)"

definition simulate_data_only :: "'o jsPsych \<Rightarrow> trial_params \<Rightarrow> 'o \<Rightarrow> simulation \<Rightarrow> simulation" where
  "simulate_data_only js p simulation_options r =
     (let data = create_simulation_data js p simulation_options;
          r1 = r\<lparr> actions := actions r @ [Data_created data] \<rparr>
      in r1\<lparr> actions := actions r1 @ [Finish_trial data] \<rparr>)"

definition simulate_visual :: "env \<Rightarrow> 'o jsPsych \<Rightarrow> trial_params \<Rightarrow> 'o \<Rightarrow> double \<Rightarrow> simulation
    \<Rightarrow> simulation" where
  "simulate_visual e js p simulation_options now r =
     (let data = create_simulation_data js p simulation_options;
          r1 = r\<lparr> actions := actions r @ [Data_created data] \<rparr>;
          display_element = getDisplayElement js
      in case trial e p display_element now of
           Inl err \<Rightarrow> r1\<lparr> raised := Some err \<rparr>
         | Inr w \<Rightarrow>
             (let r2 = r1\<lparr> actions := actions r1 @ [Trial_run w] \<rparr>;
                  r3 = r2\<lparr> actions := actions r2 @ [Load_callback] \<rparr>
              in case data_rt data of
                   None \<Rightarrow> r3
                 | Some t \<Rightarrow> r3\<lparr> actions := actions r3 @ [Press_key (data_response data) t] \<rparr>))"

definition simulate :: "env \<Rightarrow> 'o jsPsych \<Rightarrow> trial_params \<Rightarrow> string \<Rightarrow> 'o \<Rightarrow> double
    \<Rightarrow> simulation" where
  "simulate e js p simulation_mode simulation_options now =
     (let r0 = \<lparr> actions = [], raised = None \<rparr>;
          r1 = (if simulation_mode = ''data-only''
                then simulate_data_only js p simulation_options
                       (r0\<lparr> actions := actions r0 @ [Load_callback] \<rparr>)
                else r0)
      in if simulation_mode = ''visual''
         then simulate_visual e js p simulation_options now r1
         else r1)"

subsection \<open>Example inputs\<close>

text \<open>
  A jsPsych page: the display element is \<^verbatim>\<open>div#jspsych-content.jspsych-content\<close> inside
  \<^verbatim>\<open>div.jspsych-content-wrapper\<close> inside \<^verbatim>\<open>body.jspsych-display-element\<close>. The parser is
  given on the markup the examples use: the default button markup for the choices
  \<^verbatim>\<open>f\<close> and \<^verbatim>\<open>j\<close> parses to a \<^verbatim>\<open>button\<close> element of class \<^verbatim>\<open>jspsych-btn\<close>, and
  the empty string to no node, and plain text to a text node.
\<close>

definition button_node :: "string \<Rightarrow> node" where
  "button_node c = Element ''button'' [] [''jspsych-btn''] [] [] [Text c]"

definition example_browser :: env where
  "example_browser =
     \<lparr> parse_html = (\<lambda>s. if s = [] then []
                         else if s = default_button_html ''f'' 0 then [button_node ''f'']
                         else if s = default_button_html ''j'' 1 then [button_node ''j'']
                         else [Text s]),
       page_classes = [''jspsych-display-element'', ''jspsych-content-wrapper'', ''jspsych-content''] \<rparr>"

text \<open>The trial of the repository's tests: two keys, shown as buttons as well.\<close>

definition example_trial :: trial_params where
  "example_trial = (default_params ''this is html'')\<lparr> choices := Keys [''f'', ''j''] \<rparr>"

text \<open>
  The same trial with a trial duration of 500 ms (the test "should end trial when trial
  duration is reached"), and with \<^verbatim>\<open>response_ends_trial: false\<close> (the test "class should
  say responded when key is pressed").
\<close>

definition example_timed_trial :: trial_params where
  "example_timed_trial = example_trial\<lparr> trial_duration := Some 500 \<rparr>"

definition example_open_trial :: trial_params where
  "example_open_trial = example_trial\<lparr> response_ends_trial := False \<rparr>"

text \<open>A trial that accepts no keys and ends after 500 ms.\<close>

definition example_no_keys_trial :: trial_params where
  "example_no_keys_trial =
     (default_params ''this is html'')\<lparr> choices := NO_KEYS, trial_duration := Some 500 \<rparr>"

text \<open>The two-key trial with buttons that are to be enabled after one second.\<close>

definition example_delayed_buttons_trial :: trial_params where
  "example_delayed_buttons_trial = example_trial\<lparr> enable_button_after := 1000 \<rparr>"

text \<open>
  The two-key trial with button markup for the first choice only: for the second choice
  \<^verbatim>\<open>button_html\<close> returns the empty string.
\<close>

definition example_one_button_trial :: trial_params where
  "example_one_button_trial =
     example_trial\<lparr> button_html := (\<lambda>choice choice_index.
        if choice_index = 0 then default_button_html choice choice_index else []) \<rparr>"

text \<open>
  A jsPsych for the simulation: the sampler draws 523.5 ms, the valid key is the first of
  the choices, the options are a reaction time to use instead of the sampled one, if any,
  and the consistency check takes the response and the reaction time away when no key is
  allowed.
\<close>

definition example_jsPsych :: "real option option jsPsych" where
  "example_jsPsych =
     \<lparr> sampleExGaussian = (\<lambda>mean sd rate positive. 1047 / 2),
       getValidKey = (\<lambda>c. case c of Keys (k # ks) \<Rightarrow> Some k | ALL_KEYS \<Rightarrow> Some ''a'' | _ \<Rightarrow> None),
       mergeSimulationData = (\<lambda>d opt. case opt of None \<Rightarrow> d | Some t \<Rightarrow> d\<lparr> data_rt := t \<rparr>),
       ensureSimulationDataConsistency = (\<lambda>p d.
          if choices p = NO_KEYS then d\<lparr> data_rt := None, data_response := None \<rparr> else d),
       getDisplayElement = [] \<rparr>"

section \<open>Properties\<close>

subsection \<open>Rounding\<close>

lemma Math_round_nearest:
  "Math_round d = \<lfloor>real_of_double d + 1 / 2\<rfloor>"
proof (cases d)
  case (Double m e)
  show ?thesis
  proof (cases "0 \<le> e")
    case True
    have "\<lfloor>real_of_int (m * 2 ^ nat e) + 1 / 2\<rfloor> = m * 2 ^ nat e"
      by linarith
    with True Double show ?thesis by simp
  next
    case False
    define k where "k = nat (- e) - 1"
    have k: "nat (- e) = Suc k" using False by (simp add: k_def)
    have "real_of_int m / 2 ^ Suc k + 1 / 2 = real_of_int (m + 2 ^ k) / real_of_int (2 ^ Suc k)"
      by (simp add: field_simps)
    then have "\<lfloor>real_of_int m / 2 ^ Suc k + 1 / 2\<rfloor> = (m + 2 ^ k) div 2 ^ Suc k"
      by (simp only: floor_divide_of_int_eq)
    with False Double k show ?thesis by simp
  qed
qed

lemma round_to_double_exact:
  "\<bar>d\<bar> < 2 ^ 53 \<Longrightarrow> round_to_double d e = Double d e"
  by (simp add: round_to_double_def)

lemma real_of_double_powr:
  "real_of_double (Double m e) = real_of_int m * 2 powr real_of_int e"
  by (simp add: powr_real_of_int divide_inverse)

lemma double_minus_exact:
  assumes "\<bar>m1 * 2 ^ nat (e1 - min e1 e2) - m2 * 2 ^ nat (e2 - min e1 e2)\<bar> < 2 ^ 53"
  shows "real_of_double (double_minus (Double m1 e1) (Double m2 e2)) =
         real_of_double (Double m1 e1) - real_of_double (Double m2 e2)"
proof -
  define e where "e = min e1 e2"
  define n1 where "n1 = nat (e1 - e)"
  define n2 where "n2 = nat (e2 - e)"
  have e1: "real_of_int e1 = real n1 + real_of_int e" and e2: "real_of_int e2 = real n2 + real_of_int e"
    by (simp_all add: n1_def n2_def e_def)
  have p: "(2::real) ^ n = 2 powr real n" for n
    by (simp add: powr_realpow)
  have "double_minus (Double m1 e1) (Double m2 e2) = Double (m1 * 2 ^ n1 - m2 * 2 ^ n2) e"
    using assms by (simp add: Let_def round_to_double_exact e_def n1_def n2_def)
  then show ?thesis
    by (simp only: real_of_double_powr e1 e2 powr_add p of_int_diff of_int_mult of_int_power
          of_int_numeral) (simp add: algebra_simps)
qed

subsection \<open>What the callbacks leave alone\<close>

lemma for_document_buttons_fields:
  "response (for_document_buttons e f s) = response s"
  "finished (for_document_buttons e f s) = finished s"
  "timeouts (for_document_buttons e f s) = timeouts s"
  "keyboard (for_document_buttons e f s) = keyboard s"
  "click_listeners (for_document_buttons e f s) = click_listeners s"
  "keyboardListener (for_document_buttons e f s) = keyboardListener s"
  "start_time (for_document_buttons e f s) = start_time s"
  by (simp_all add: for_document_buttons_def Let_def)

lemma query_update_fields:
  "query_update x f seen cs s = Some s' \<Longrightarrow>
     response s' = response s \<and> finished s' = finished s \<and> timeouts s' = timeouts s \<and>
     keyboard s' = keyboard s \<and> click_listeners s' = click_listeners s \<and>
     keyboardListener s' = keyboardListener s \<and> start_time s' = start_time s"
  by (induction x f seen cs s rule: query_update.induct) (auto split: option.splits)

lemma hide_stimulus_fields:
  "response (hide_stimulus s) = response s"
  "finished (hide_stimulus s) = finished s"
  "timeouts (hide_stimulus s) = timeouts s"
  "keyboard (hide_stimulus s) = keyboard s"
  "click_listeners (hide_stimulus s) = click_listeners s"
  "keyboardListener (hide_stimulus s) = keyboardListener s"
  "start_time (hide_stimulus s) = start_time s"
  by (auto simp: hide_stimulus_def split: option.splits dest: query_update_fields)

lemma end_trial_fields:
  "response (end_trial p s) = response s"
  "finished (end_trial p s) =
     finished s @ [\<lparr> data_rt = rt (response s), data_stimulus = stimulus p,
                      data_response = key (response s) \<rparr>]"
  "timeouts (end_trial p s) = []"
  "click_listeners (end_trial p s) = []"
  "keyboard (end_trial p s) = None"
  "keyboardListener (end_trial p s) = keyboardListener s"
  "start_time (end_trial p s) = start_time s"
  "stimulusElement (end_trial p s) = stimulusElement s"
  "buttonGroupElement (end_trial p s) = buttonGroupElement s"
  "display_element (end_trial p s) = []"
  by (simp_all add: end_trial_def finishTrial_def cancelKeyboardResponse_def Let_def split: option.splits)

lemma after_response_fields:
  "key (response (after_response p info t s)) =
     (if key (response s) = None then key info else key (response s))"
  "rt (response (after_response p info t s)) =
     Some (of_int (Math_round (double_minus t (start_time s))))"
  "finished (after_response p info t s) =
     (if response_ends_trial p
      then finished s @ [\<lparr> data_rt = Some (of_int (Math_round (double_minus t (start_time s)))),
              data_stimulus = stimulus p,
              data_response = (if key (response s) = None then key info else key (response s)) \<rparr>]
      else finished s)"
  "timeouts (after_response p info t s) = (if response_ends_trial p then [] else timeouts s)"
  "click_listeners (after_response p info t s) =
     (if response_ends_trial p then [] else click_listeners s)"
  "keyboard (after_response p info t s) = (if response_ends_trial p then None else keyboard s)"
  "keyboardListener (after_response p info t s) = keyboardListener s"
  "start_time (after_response p info t s) = start_time s"
  by (simp_all add: after_response_def Let_def end_trial_fields)

lemma display_buttons_fields:
  "display_buttons e p pg = Inr pg' \<Longrightarrow>
     timeouts pg' = timeouts pg \<and> finished pg' = finished pg \<and> keyboard pg' = keyboard pg \<and>
     stimulusElement pg' = stimulusElement pg"
  by (auto simp: display_buttons_def split: if_splits choices.splits sum.splits)


lemma display_buttons_no_buttons:
  "\<not> show_button p \<or> choices p = ALL_KEYS \<or> choices p = NO_KEYS \<or> choices p = Null_choices \<Longrightarrow>
   display_buttons e p pg = Inr pg"
  by (auto simp: display_buttons_def)

lemma arm_fields:
  "arm p now pg = Inr w \<Longrightarrow>
     display_element w = display_element pg \<and> stimulusElement w = stimulusElement pg \<and>
     buttonGroupElement w = buttonGroupElement pg \<and> click_listeners w = click_listeners pg \<and>
     finished w = finished pg \<and> response w = \<lparr> rt = None, key = None \<rparr> \<and> start_time w = now \<and>
     keyboard w = keyboardListener w \<and>
     keyboardListener w = (if loosely_NO_KEYS (choices p) then None else Some (response_listener p)) \<and>
     timeouts w = timeouts pg @
       (case stimulus_duration p of None \<Rightarrow> [] | Some d \<Rightarrow> [(Hide_stimulus, d)]) @
       (case trial_duration p of None \<Rightarrow> [] | Some d \<Rightarrow> [(End_trial, d)])"
  by (auto simp: arm_def getKeyboardResponse_def Let_def split: if_splits option.splits)

lemma arm_returns:
  "choices p \<noteq> Null_choices \<Longrightarrow> \<not> isl (arm p now pg)"
  by (auto simp: arm_def getKeyboardResponse_def response_listener_def Let_def split: if_splits)

lemma arm_raises:
  "choices p = Null_choices \<Longrightarrow> arm p now pg = Inl (TypeError, pg)"
  by (simp add: arm_def getKeyboardResponse_def response_listener_def loosely_NO_KEYS_def)

lemma trial_render:
  "trial e p pre now = Inr w \<Longrightarrow>
   \<exists>pg. display_buttons e p (display_stimulus e p pre) = Inr pg \<and>
        arm p now (show_prompt e p (disable_buttons e p pg)) = Inr w"
  by (auto simp: trial_def render_def split: sum.splits)

lemma rendered_fields:
  "timeouts (show_prompt e p (disable_buttons e p pg)) =
     timeouts pg @ (if enable_button_after p > 0 then [(Enable_buttons, enable_button_after p)] else [])"
  "finished (show_prompt e p (disable_buttons e p pg)) = finished pg"
  "click_listeners (show_prompt e p (disable_buttons e p pg)) = click_listeners pg"
  "keyboard (show_prompt e p (disable_buttons e p pg)) = keyboard pg"
  by (simp_all add: show_prompt_def disable_buttons_def for_document_buttons_def Let_def
        split: option.splits)

lemma trial_timeouts:
  "trial e p pre now = Inr w \<Longrightarrow>
     timeouts w =
       (if enable_button_after p > 0 then [(Enable_buttons, enable_button_after p)] else []) @
       (case stimulus_duration p of None \<Rightarrow> [] | Some d \<Rightarrow> [(Hide_stimulus, d)]) @
       (case trial_duration p of None \<Rightarrow> [] | Some d \<Rightarrow> [(End_trial, d)])"
proof -
  assume "trial e p pre now = Inr w"
  then obtain pg where pg: "display_buttons e p (display_stimulus e p pre) = Inr pg"
    and w: "arm p now (show_prompt e p (disable_buttons e p pg)) = Inr w"
    using trial_render by blast
  have "timeouts pg = []"
    using display_buttons_fields[OF pg] by (simp add: display_stimulus_def)
  with arm_fields[OF w] show ?thesis
    by (simp add: rendered_fields)
qed

lemma trial_closure:
  "trial e p pre now = Inr w \<Longrightarrow>
     finished w = [] \<and> response w = \<lparr> rt = None, key = None \<rparr> \<and> start_time w = now \<and>
     keyboard w = keyboardListener w \<and>
     keyboardListener w = (if loosely_NO_KEYS (choices p) then None else Some (response_listener p))"
proof -
  assume "trial e p pre now = Inr w"
  then obtain pg where pg: "display_buttons e p (display_stimulus e p pre) = Inr pg"
    and w: "arm p now (show_prompt e p (disable_buttons e p pg)) = Inr w"
    using trial_render by blast
  have "finished pg = []"
    using display_buttons_fields[OF pg] by (simp add: display_stimulus_def)
  with arm_fields[OF w] show ?thesis
    by (simp add: rendered_fields)
qed

lemma run_Nil: "run e p s [] = s"
  by (simp add: run_def)

lemma run_Cons: "run e p s (ev # evs) = run e p (step e p s ev) evs"
  by (simp add: run_def)

lemma run_snoc: "run e p s (evs @ [ev]) = step e p (run e p s evs) ev"
  by (simp add: run_def)

lemma clicks_invariant:
  assumes "\<And>s info. P s \<Longrightarrow> P (after_response p info t s)" and "P s"
  shows "P (foldl (\<lambda>s' info. after_response p info t s') s infos)"
  using assms(2) by (induction infos arbitrary: s) (simp_all add: assms(1))

lemma step_key_Some:
  assumes "key (response s) = Some k"
  shows "key (response (step e p s ev)) = Some k"
proof (cases ev)
  case (Key_down k' hr t)
  then show ?thesis
    using assms by (simp add: after_response_fields split: option.splits)
next
  case (Click j t)
  have "key (response (foldl (\<lambda>s' info. after_response p info t s') s infos)) = Some k" for infos
    by (rule clicks_invariant[where P = "\<lambda>s. key (response s) = Some k"])
       (simp_all add: after_response_fields assms)
  with Click show ?thesis by simp
next
  case (Timeout cb)
  then show ?thesis
    using assms
    by (cases cb) (simp_all add: enable_buttons_def for_document_buttons_fields
          hide_stimulus_fields end_trial_fields)
qed

lemma run_key_Some:
  "key (response s) = Some k \<Longrightarrow> key (response (run e p s evs)) = Some k"
  by (induction evs arbitrary: s) (simp_all add: run_Nil run_Cons step_key_Some)

subsection \<open>What a run of events can change\<close>

lemma set_take_timeout: "set (take_timeout cb ts) \<subseteq> set ts"
  by (induction ts) (auto split: if_splits)

lemma clicks_timeouts:
  "set (timeouts (foldl (\<lambda>s' info. after_response p info t s') s infos)) \<subseteq> set (timeouts s)"
  by (rule clicks_invariant[where P = "\<lambda>s'. set (timeouts s') \<subseteq> set (timeouts s)"])
     (simp_all add: after_response_fields)

lemma step_timeouts:
  "fst ` set (timeouts (step e p s ev)) \<subseteq> fst ` set (timeouts s)"
proof (cases ev)
  case (Key_down k r t)
  then show ?thesis by (simp add: after_response_fields split: option.splits)
next
  case (Click j t)
  then show ?thesis using clicks_timeouts[of p t s] by auto
next
  case (Timeout cb)
  have "fst ` set (take_timeout cb (timeouts s)) \<subseteq> fst ` set (timeouts s)"
    using set_take_timeout[of cb "timeouts s"] by blast
  with Timeout show ?thesis
    by (cases cb) (simp_all add: enable_buttons_def for_document_buttons_fields
          hide_stimulus_fields end_trial_fields)
qed


lemma clicks_finished:
  "\<not> response_ends_trial p \<Longrightarrow>
   finished (foldl (\<lambda>s' info. after_response p info t s') s infos) = finished s"
  by (induction infos arbitrary: s) (simp_all add: after_response_fields)

lemma step_finished:
  assumes "\<not> response_ends_trial p \<or> (keyboard s = None \<and> click_listeners s = [])"
  shows "finished (step e p s ev) =
           (if ev = Timeout End_trial \<and> End_trial \<in> fst ` set (timeouts s)
            then finished s @ [\<lparr> data_rt = rt (response s), data_stimulus = stimulus p,
                                   data_response = key (response s) \<rparr>]
            else finished s)"
proof (cases ev)
  case (Key_down k r t)
  then show ?thesis using assms by (auto simp: after_response_fields split: option.splits)
next
  case (Click j t)
  then show ?thesis using assms by (auto simp: clicks_finished)
next
  case (Timeout cb)
  then show ?thesis
    by (cases cb) (simp_all add: enable_buttons_def for_document_buttons_fields
          hide_stimulus_fields end_trial_fields)
qed

lemma step_silent:
  assumes "keyboard s = None" and "click_listeners s = []"
  shows "keyboard (step e p s ev) = None \<and> click_listeners (step e p s ev) = [] \<and>
         response (step e p s ev) = response s"
proof (cases ev)
  case (Key_down k r t)
  then show ?thesis using assms by simp
next
  case (Click j t)
  then show ?thesis using assms by simp
next
  case (Timeout cb)
  then show ?thesis
    using assms
    by (cases cb) (auto simp: enable_buttons_def for_document_buttons_fields
          hide_stimulus_fields end_trial_fields)
qed

lemma run_finished:
  assumes "\<not> response_ends_trial p \<or> (keyboard s = None \<and> click_listeners s = [])"
    and "Timeout End_trial \<notin> set evs \<or> End_trial \<notin> fst ` set (timeouts s)"
  shows "finished (run e p s evs) = finished s"
  using assms
proof (induction evs arbitrary: s)
  case Nil
  then show ?case by (simp add: run_Nil)
next
  case (Cons ev evs)
  have quiet: "\<not> response_ends_trial p \<or>
      (keyboard (step e p s ev) = None \<and> click_listeners (step e p s ev) = [])"
    using Cons.prems(1) step_silent[of s e p ev] by auto
  have pending: "Timeout End_trial \<notin> set evs \<or> End_trial \<notin> fst ` set (timeouts (step e p s ev))"
    using Cons.prems(2) step_timeouts[of e p s ev] by auto
  have "finished (step e p s ev) = finished s"
    using Cons.prems by (auto simp: step_finished)
  with Cons.IH[OF quiet pending] show ?case by (simp add: run_Cons)
qed

lemma run_silent:
  "keyboard s = None \<Longrightarrow> click_listeners s = [] \<Longrightarrow>
   keyboard (run e p s evs) = None \<and> click_listeners (run e p s evs) = [] \<and>
   response (run e p s evs) = response s"
proof (induction evs arbitrary: s)
  case Nil
  then show ?case by (simp add: run_Nil)
next
  case (Cons ev evs)
  from Cons.prems have "keyboard (step e p s ev) = None" "click_listeners (step e p s ev) = []"
      "response (step e p s ev) = response s"
    using step_silent[of s e p ev] by simp_all
  with Cons.IH[of "step e p s ev"] show ?case by (simp add: run_Cons)
qed

subsection \<open>Once a result has been handed over\<close>







subsection \<open>What a run of events leaves of the page\<close>

lemma is_element_updates [simp]:
  "is_element (classList_add c n) = is_element n"
  "is_element (setAttribute a v n) = is_element n"
  "is_element (removeAttribute a n) = is_element n"
  "is_element (set_style a v n) = is_element n"
  "is_element (set_childNodes ks n) = is_element n"
  by (cases n, simp_all)+











subsection \<open>One click listener for each button\<close>



subsection \<open>Unfolding the method \<^verbatim>\<open>trial\<close> on examples\<close>

lemmas trial_defs = trial_def render_def display_buttons_def display_stimulus_def disable_buttons_def
  show_prompt_def arm_def getKeyboardResponse_def layout_group_def loosely_NO_KEYS_def
  response_listener_def set_innerHTML_def createElement_def insertAdjacentHTML_def
  for_document_buttons_def Let_def

lemmas example_defs = example_browser_def example_trial_def example_timed_trial_def example_open_trial_def
  example_no_keys_trial_def example_delayed_buttons_trial_def example_one_button_trial_def
  default_params_def default_button_html_def button_node_def

subsection \<open>C1: at most one result, unless a click reaches two listeners\<close>




subsection \<open>C2: buttons enabled after a delay\<close>

text \<open>
  C2 says that with \<^verbatim>\<open>enable_button_after > 0\<close> every rendered button starts disabled and
  is enabled again by a timer. The source selects the buttons to disable, and later to
  enable, with \<^verbatim>\<open>.jspsych-html-button-response-button button\<close>: the buttons below an
  element of that class. \<^verbatim>\<open>trial\<close> renders each button as a child of the button group
  and creates no element of that class, so with the default button markup the selection
  is empty.

  C2 at the two-key trial with \<^verbatim>\<open>enable_button_after: 1000\<close>, on a jsPsych page: the
  timeout is set, and the two buttons \<^verbatim>\<open>trial\<close> has rendered carry no \<^verbatim>\<open>disabled\<close>
  attribute. Nor does the timeout enable them. A click disables both buttons; when it
  has ended the trial jsPsych has cleared the timeout, and the buttons stay disabled;
  when it has left the trial open (\<^verbatim>\<open>response_ends_trial: false\<close>) the timeout is still
  pending, and after it has fired, with nothing handed to jsPsych, both buttons are
  still disabled.
\<close>

theorem C2_buttons_start_enabled:
  "0 < enable_button_after example_delayed_buttons_trial \<and>
   \<not> isl (trial example_browser example_delayed_buttons_trial [] (ms 0)) \<and>
   buttonGroupElement (projr (trial example_browser example_delayed_buttons_trial [] (ms 0))) =
     Some (Element ''div'' ''jspsych-html-button-response-btngroup'' [''jspsych-btn-group-grid''] []
             [(''grid-template-columns'', ''repeat(2, 1fr)''), (''grid-template-rows'', ''repeat(1, 1fr)'')]
             [Element ''button'' [] [''jspsych-btn''] [(''data-choice'', ''0'')] [] [Text ''f''],
              Element ''button'' [] [''jspsych-btn''] [(''data-choice'', ''1'')] [] [Text ''j'']]) \<and>
   map_option (map (getAttribute ''disabled'') \<circ> children)
       (buttonGroupElement (projr (trial example_browser example_delayed_buttons_trial [] (ms 0)))) =
     Some [None, None] \<and>
   timeouts (projr (trial example_browser example_delayed_buttons_trial [] (ms 0))) =
     [(Enable_buttons, 1000)] \<and>
   map_option (map (getAttribute ''disabled'') \<circ> children)
       (buttonGroupElement (run example_browser example_delayed_buttons_trial
          (projr (trial example_browser example_delayed_buttons_trial [] (ms 0)))
          [Click 0 (ms 300), Timeout Enable_buttons])) =
     Some [Some ''disabled'', Some ''disabled''] \<and>
   timeouts (run example_browser (example_delayed_buttons_trial\<lparr> response_ends_trial := False \<rparr>)
       (projr (trial example_browser
          (example_delayed_buttons_trial\<lparr> response_ends_trial := False \<rparr>) [] (ms 0)))
       [Click 0 (ms 300)]) = [(Enable_buttons, 1000)] \<and>
   finished (run example_browser (example_delayed_buttons_trial\<lparr> response_ends_trial := False \<rparr>)
       (projr (trial example_browser
          (example_delayed_buttons_trial\<lparr> response_ends_trial := False \<rparr>) [] (ms 0)))
       [Click 0 (ms 300), Timeout Enable_buttons]) = [] \<and>
   map_option (map (getAttribute ''disabled'') \<circ> children)
       (buttonGroupElement
          (run example_browser (example_delayed_buttons_trial\<lparr> response_ends_trial := False \<rparr>)
             (projr (trial example_browser
                (example_delayed_buttons_trial\<lparr> response_ends_trial := False \<rparr>) [] (ms 0)))
             [Click 0 (ms 300), Timeout Enable_buttons])) =
     Some [Some ''disabled'', Some ''disabled'']"
  by code_simp

subsection \<open>C3: the first response wins\<close>

text \<open>
  C3: \<^verbatim>\<open>response.key\<close> is set at most once. Once it is set, no later event changes it,
  whatever the events are; and when it is not set yet, a call of \<^verbatim>\<open>after_response\<close>, a
  key that jsPsych's keyboard service passes on, or a click on a child of the button
  group that has a listener sets it to the identifier of that response, which it keeps
  through every later event.
\<close>

theorem C3_first_response_wins:
  "(key (response s) = Some k \<longrightarrow> key (response (run e p s evs)) = Some k) \<and>
   (key (response s) = None \<longrightarrow>
      key (response (run e p (after_response p \<lparr> rt = r, key = Some k \<rparr> t s) evs)) = Some k) \<and>
   (key (response s) = None \<and> keyboard s = Some l \<and> qualifies (valid_responses l) k \<longrightarrow>
      key (response (run e p s (Key_down k r t # evs))) = Some k) \<and>
   (key (response s) = None \<and>
    map snd (filter (\<lambda>l. fst l = j) (click_listeners s)) = info # infos \<and> key info = Some k \<longrightarrow>
      key (response (run e p s (Click j t # evs))) = Some k)"
proof (intro conjI impI)
  assume "key (response s) = Some k"
  then show "key (response (run e p s evs)) = Some k" by (rule run_key_Some)
next
  assume "key (response s) = None"
  then have "key (response (after_response p \<lparr> rt = r, key = Some k \<rparr> t s)) = Some k"
    by (simp add: after_response_fields)
  then show "key (response (run e p (after_response p \<lparr> rt = r, key = Some k \<rparr> t s) evs)) = Some k"
    by (rule run_key_Some)
next
  assume a: "key (response s) = None \<and> keyboard s = Some l \<and> qualifies (valid_responses l) k"
  then have "key (response (step e p s (Key_down k r t))) = Some k"
    by (simp add: after_response_fields)
  then show "key (response (run e p s (Key_down k r t # evs))) = Some k"
    by (simp add: run_Cons run_key_Some)
next
  assume a: "key (response s) = None \<and>
    map snd (filter (\<lambda>l. fst l = j) (click_listeners s)) = info # infos \<and> key info = Some k"
  then have first: "key (response (after_response p info t s)) = Some k"
    by (simp add: after_response_fields)
  have "key (response (foldl (\<lambda>s' info. after_response p info t s') (after_response p info t s) infos))
          = Some k"
  proof (rule clicks_invariant[where P = "\<lambda>s. key (response s) = Some k"])
    show "key (response (after_response p info t s)) = Some k" by (rule first)
  qed (simp add: after_response_fields)
  with a have "key (response (step e p s (Click j t))) = Some k"
    by simp
  then show "key (response (run e p s (Click j t # evs))) = Some k"
    by (simp add: run_Cons run_key_Some)
qed

text \<open>
  The theorem at work, with \<^verbatim>\<open>response_ends_trial: false\<close>: the key \<^verbatim>\<open>F\<close> (which
  qualifies for the choice \<^verbatim>\<open>f\<close>) followed by the key \<^verbatim>\<open>j\<close> leaves \<^verbatim>\<open>F\<close>, the key
  \<^verbatim>\<open>j\<close> followed by a click on the button \<^verbatim>\<open>f\<close> leaves \<^verbatim>\<open>j\<close>, and the click followed
  by the key leaves \<^verbatim>\<open>f\<close>.
\<close>

theorem C3_witness:
  "key (response (projr (trial example_browser example_open_trial [] (ms 0)))) = None \<and>
   key (response (run example_browser example_open_trial
      (projr (trial example_browser example_open_trial [] (ms 0)))
      [Key_down ''F'' (Some 300) (ms 300), Key_down ''j'' (Some 400) (ms 400)])) = Some ''F'' \<and>
   key (response (run example_browser example_open_trial
      (projr (trial example_browser example_open_trial [] (ms 0)))
      [Key_down ''j'' (Some 300) (ms 300), Click 0 (ms 400), Timeout Enable_buttons])) = Some ''j'' \<and>
   key (response (run example_browser example_open_trial
      (projr (trial example_browser example_open_trial [] (ms 0)))
      [Click 0 (ms 300), Key_down ''j'' (Some 700) (ms 700)])) = Some ''f'' \<and>
   key (response (run example_browser example_open_trial
      (step example_browser example_open_trial (projr (trial example_browser example_open_trial [] (ms 0))) (Click 0 (ms 300)))
      [Key_down ''j'' (Some 700) (ms 700)])) = Some ''f''"
proof -
  let ?w = "projr (trial example_browser example_open_trial [] (ms 0))"
  let ?l = "response_listener example_open_trial"
  have k: "key (response ?w) = None" by code_simp
  have kb: "keyboard ?w = Some ?l" by code_simp
  have q: "qualifies (valid_responses ?l) ''j''" by code_simp
  have c: "map snd (filter (\<lambda>l. fst l = 0) (click_listeners ?w)) = [\<lparr> rt = None, key = Some ''f'' \<rparr>]"
    by code_simp
  have s: "key (response (step example_browser example_open_trial ?w (Click 0 (ms 300)))) = Some ''f''"
    by code_simp
  have qF: "qualifies (valid_responses ?l) ''F''" by code_simp
  note inst = C3_first_response_wins[where e = example_browser and p = example_open_trial]
  have "key (response (run example_browser example_open_trial ?w
      [Key_down ''F'' (Some 300) (ms 300), Key_down ''j'' (Some 400) (ms 400)])) = Some ''F''"
    using inst[where s = "?w" and l = "?l" and k = "''F''" and r = "Some 300" and t = "ms 300"
        and evs = "[Key_down ''j'' (Some 400) (ms 400)]"] k kb qF
    by blast
  moreover
  have "key (response (run example_browser example_open_trial ?w
      [Key_down ''j'' (Some 300) (ms 300), Click 0 (ms 400), Timeout Enable_buttons])) = Some ''j''"
    using inst[where s = "?w" and l = "?l" and k = "''j''" and r = "Some 300" and t = "ms 300"
        and evs = "[Click 0 (ms 400), Timeout Enable_buttons]"] k kb q
    by blast
  moreover have "key (response (run example_browser example_open_trial ?w
      [Click 0 (ms 300), Key_down ''j'' (Some 700) (ms 700)])) = Some ''f''"
    using inst[where s = "?w" and j = 0 and info = "\<lparr> rt = None, key = Some ''f'' \<rparr>" and infos = "[]"
        and k = "''f''" and t = "ms 300" and evs = "[Key_down ''j'' (Some 700) (ms 700)]"] k c
    by simp
  moreover have "key (response (run example_browser example_open_trial
      (step example_browser example_open_trial ?w (Click 0 (ms 300)))
      [Key_down ''j'' (Some 700) (ms 700)])) = Some ''f''"
    using inst[where s = "step example_browser example_open_trial ?w (Click 0 (ms 300))"
        and k = "''f''" and evs = "[Key_down ''j'' (Some 700) (ms 700)]"] s
    by blast
  ultimately show ?thesis using k by simp
qed

subsection \<open>C4: no keys\<close>

text \<open>
  C4: if \<^verbatim>\<open>choices\<close> is \<^verbatim>\<open>"NO_KEYS"\<close>, \<^verbatim>\<open>trial\<close> returns normally with no keyboard
  listener registered (and, as buttons need an array of choices, with no button and no
  click listener). Whatever events follow, a key changes nothing, no response is ever
  recorded, and a result is handed to jsPsych only if there is a trial duration and its
  timeout has fired.
\<close>

theorem C4_no_keys_no_keyboard_response:
  "choices p = NO_KEYS \<Longrightarrow>
   \<exists>w. trial e p pre now = Inr w \<and>
       keyboardListener w = None \<and> keyboard w = None \<and>
       buttonGroupElement w = None \<and> click_listeners w = [] \<and>
       (\<forall>evs k r t.
          step e p (run e p w evs) (Key_down k r t) = run e p w evs \<and>
          response (run e p w evs) = \<lparr> rt = None, key = None \<rparr> \<and>
          (finished (run e p w evs) \<noteq> [] \<longrightarrow>
             trial_duration p \<noteq> None \<and> Timeout End_trial \<in> set evs))"
proof -
  assume c: "choices p = NO_KEYS"
  define pg where "pg = show_prompt e p (disable_buttons e p (display_stimulus e p pre))"
  have "\<not> isl (arm p now pg)"
    using c by (simp add: arm_returns)
  then obtain w where w: "arm p now pg = Inr w"
    by (cases "arm p now pg") simp_all
  have tr: "trial e p pre now = Inr w"
    using c w by (simp add: trial_def render_def display_buttons_no_buttons pg_def)
  have kb: "keyboardListener w = None" "keyboard w = None"
    using trial_closure[OF tr] c by (simp_all add: loosely_NO_KEYS_def)
  have cl: "click_listeners w = []" "buttonGroupElement w = None"
    using arm_fields[OF w]
    by (simp_all add: pg_def show_prompt_def disable_buttons_def display_stimulus_def
          for_document_buttons_def Let_def split: option.splits)
  have init: "finished w = []" "response w = \<lparr> rt = None, key = None \<rparr>"
    using trial_closure[OF tr] by simp_all
  have "step e p (run e p w evs) (Key_down k r t) = run e p w evs \<and>
        response (run e p w evs) = \<lparr> rt = None, key = None \<rparr> \<and>
        (finished (run e p w evs) \<noteq> [] \<longrightarrow>
           trial_duration p \<noteq> None \<and> Timeout End_trial \<in> set evs)" for evs k r t
  proof (intro conjI impI)
    show "step e p (run e p w evs) (Key_down k r t) = run e p w evs"
      using run_silent[OF kb(2) cl(1), of e p evs] by simp
    show "response (run e p w evs) = \<lparr> rt = None, key = None \<rparr>"
      using run_silent[OF kb(2) cl(1), of e p evs] init by simp
  next
    assume f: "finished (run e p w evs) \<noteq> []"
    have absent: "trial_duration p = None \<Longrightarrow> End_trial \<notin> fst ` set (timeouts w)"
      using trial_timeouts[OF tr] by (auto split: option.splits if_splits)
    have "\<not> (Timeout End_trial \<notin> set evs \<or> trial_duration p = None)"
    proof
      assume a: "Timeout End_trial \<notin> set evs \<or> trial_duration p = None"
      have "finished (run e p w evs) = finished w"
        using a absent run_finished[of p w evs e] kb cl by blast
      with f init show False by simp
    qed
    then show "trial_duration p \<noteq> None" and "Timeout End_trial \<in> set evs"
      by simp_all
  qed
  with tr kb cl show ?thesis by blast
qed

text \<open>
  The theorem at work: the trial that accepts no keys. A key leaves the response record
  empty and the trial open.
\<close>

theorem C4_witness:
  "choices example_no_keys_trial = NO_KEYS \<and>
   \<not> isl (trial example_browser example_no_keys_trial [] (ms 0)) \<and>
   keyboard (projr (trial example_browser example_no_keys_trial [] (ms 0))) = None \<and>
   response (run example_browser example_no_keys_trial
       (projr (trial example_browser example_no_keys_trial [] (ms 0)))
       [Key_down ''a'' (Some 300) (ms 300), Timeout End_trial]) = \<lparr> rt = None, key = None \<rparr> \<and>
   finished (run example_browser example_no_keys_trial
       (projr (trial example_browser example_no_keys_trial [] (ms 0)))
       [Key_down ''a'' (Some 300) (ms 300)]) = []"
proof -
  have c: "choices example_no_keys_trial = NO_KEYS"
    by (simp add: example_no_keys_trial_def)
  from C4_no_keys_no_keyboard_response[OF c, of example_browser "[]" "ms 0"]
  obtain w where w: "trial example_browser example_no_keys_trial [] (ms 0) = Inr w"
    and kb: "keyboard w = None"
    and evs: "\<And>evs. response (run example_browser example_no_keys_trial w evs) = \<lparr> rt = None, key = None \<rparr>"
    and fin: "\<And>evs. finished (run example_browser example_no_keys_trial w evs) \<noteq> [] \<longrightarrow>
             trial_duration example_no_keys_trial \<noteq> None \<and> Timeout End_trial \<in> set evs"
    by blast
  have "finished (run example_browser example_no_keys_trial w [Key_down ''a'' (Some 300) (ms 300)]) = []"
    using fin[of "[Key_down ''a'' (Some 300) (ms 300)]"] by auto
  with w kb evs c show ?thesis by simp
qed

subsection \<open>C5: a response that does not end the trial\<close>



subsection \<open>C6 and C10: the grid check\<close>

text \<open>
  C6 says that a grid layout with neither rows nor columns raises the configuration
  error. The check stands inside the block that renders the buttons, so it runs only when
  that block does.

  C6, as amended: if buttons are rendered (\<^verbatim>\<open>show_button\<close> is true and \<^verbatim>\<open>choices\<close> is an
  array), \<^verbatim>\<open>button_layout\<close> is \<^verbatim>\<open>"grid"\<close> and \<^verbatim>\<open>grid_rows\<close> and \<^verbatim>\<open>grid_columns\<close>
  are both null, \<^verbatim>\<open>trial\<close> raises the configuration error. When it is raised, the
  stimulus element has been appended to the display element, the button group exists,
  detached and with its grid class, no button has been built, no listener is registered,
  no timeout is set and nothing has been handed to jsPsych.
\<close>

theorem C6_grid_error:
  "show_button p \<Longrightarrow> choices p = Keys ks \<Longrightarrow> button_layout p = ''grid'' \<Longrightarrow>
   grid_rows p = None \<Longrightarrow> grid_columns p = None \<Longrightarrow>
   trial e p pre now =
     Inl (Error grid_error,
          \<lparr> display_element = map Parsed pre @ [Stimulus_ref],
            stimulusElement = Element ''div'' stimulus_id [] [] [] (parse_html e (stimulus p)),
            buttonGroupElement =
              Some (Element ''div'' ''jspsych-html-button-response-btngroup''
                      [''jspsych-btn-group-grid''] [] [] []),
            click_listeners = [], timeouts = [], keyboard = None, finished = [] \<rparr>)"
  by (simp add: trial_defs)

text \<open>The theorem at work: the two-key trial with \<^verbatim>\<open>grid_rows\<close> set to null.\<close>

theorem C6_witness:
  "show_button (example_trial\<lparr> grid_rows := None \<rparr>) \<and>
   choices (example_trial\<lparr> grid_rows := None \<rparr>) = Keys [''f'', ''j''] \<and>
   button_layout (example_trial\<lparr> grid_rows := None \<rparr>) = ''grid'' \<and>
   grid_rows (example_trial\<lparr> grid_rows := None \<rparr>) = None \<and>
   grid_columns (example_trial\<lparr> grid_rows := None \<rparr>) = None \<and>
   trial example_browser (example_trial\<lparr> grid_rows := None \<rparr>) [] (ms 0) =
     Inl (Error grid_error,
          \<lparr> display_element = [Stimulus_ref],
            stimulusElement = Element ''div'' stimulus_id [] [] [] [Text ''this is html''],
            buttonGroupElement =
              Some (Element ''div'' ''jspsych-html-button-response-btngroup''
                      [''jspsych-btn-group-grid''] [] [] []),
            click_listeners = [], timeouts = [], keyboard = None, finished = [] \<rparr>)"
  using C6_grid_error[of "example_trial\<lparr> grid_rows := None \<rparr>" "[''f'', ''j'']" example_browser "[]" "ms 0"]
  by (simp add: example_defs)

text \<open>
  The counterexample: the default parameters (\<^verbatim>\<open>choices\<close> is \<^verbatim>\<open>"ALL_KEYS"\<close>) with
  \<^verbatim>\<open>grid_rows\<close> set to null. The layout is \<^verbatim>\<open>"grid"\<close>, rows and columns are both
  null, and \<^verbatim>\<open>trial\<close> returns normally.
\<close>

theorem C6_counterexample:
  "button_layout ((default_params ''this is html'')\<lparr> grid_rows := None \<rparr>) = ''grid'' \<and>
   grid_rows ((default_params ''this is html'')\<lparr> grid_rows := None \<rparr>) = None \<and>
   grid_columns ((default_params ''this is html'')\<lparr> grid_rows := None \<rparr>) = None \<and>
   \<not> isl (trial example_browser ((default_params ''this is html'')\<lparr> grid_rows := None \<rparr>) [] (ms 0))"
  by (simp add: trial_defs default_params_def)

text \<open>
  C10: when \<^verbatim>\<open>show_button\<close> is false, or \<^verbatim>\<open>choices\<close> is \<^verbatim>\<open>"ALL_KEYS"\<close>, \<^verbatim>\<open>"NO_KEYS"\<close> or
  null, the rendering part of \<^verbatim>\<open>trial\<close> returns normally whatever the layout parameters
  are, with no button group: the grid check is not reached. \<^verbatim>\<open>trial\<close> then goes on to
  the listeners and timers; it returns normally unless \<^verbatim>\<open>choices\<close> is null, where the
  registration of the keyboard listener raises a TypeError, with the page rendered.
\<close>

theorem C10_grid_check_needs_buttons:
  "\<not> show_button p \<or> choices p = ALL_KEYS \<or> choices p = NO_KEYS \<or> choices p = Null_choices \<Longrightarrow>
   render e p pre = Inr (show_prompt e p (disable_buttons e p (display_stimulus e p pre))) \<and>
   buttonGroupElement (show_prompt e p (disable_buttons e p (display_stimulus e p pre))) = None \<and>
   trial e p pre now = arm p now (show_prompt e p (disable_buttons e p (display_stimulus e p pre))) \<and>
   (choices p \<noteq> Null_choices \<longrightarrow> \<not> isl (trial e p pre now)) \<and>
   (choices p = Null_choices \<longrightarrow>
      trial e p pre now =
        Inl (TypeError, show_prompt e p (disable_buttons e p (display_stimulus e p pre))))"
proof -
  assume a: "\<not> show_button p \<or> choices p = ALL_KEYS \<or> choices p = NO_KEYS \<or> choices p = Null_choices"
  have r: "render e p pre = Inr (show_prompt e p (disable_buttons e p (display_stimulus e p pre)))"
    using a by (simp add: render_def display_buttons_no_buttons)
  have g: "buttonGroupElement (show_prompt e p (disable_buttons e p (display_stimulus e p pre))) = None"
    by (simp add: show_prompt_def disable_buttons_def display_stimulus_def for_document_buttons_def
          Let_def split: option.splits)
  have t: "trial e p pre now = arm p now (show_prompt e p (disable_buttons e p (display_stimulus e p pre)))"
    using r by (simp add: trial_def)
  from r g t show ?thesis
    by (simp add: arm_returns arm_raises)
qed

text \<open>
  The theorem at work, each time with a grid layout and neither rows nor columns: no
  buttons shown, the choices \<^verbatim>\<open>"ALL_KEYS"\<close>, the choices \<^verbatim>\<open>"NO_KEYS"\<close>, and null choices,
  where rendering returns and the registration of the listener raises.
\<close>

theorem C10_witness:
  "\<not> show_button (example_trial\<lparr> show_button := False, grid_rows := None \<rparr>) \<and>
   button_layout (example_trial\<lparr> show_button := False, grid_rows := None \<rparr>) = ''grid'' \<and>
   grid_rows (example_trial\<lparr> show_button := False, grid_rows := None \<rparr>) = None \<and>
   grid_columns (example_trial\<lparr> show_button := False, grid_rows := None \<rparr>) = None \<and>
   \<not> isl (render example_browser (example_trial\<lparr> show_button := False, grid_rows := None \<rparr>) []) \<and>
   \<not> isl (trial example_browser (example_trial\<lparr> show_button := False, grid_rows := None \<rparr>) [] (ms 0)) \<and>
   \<not> isl (trial example_browser (example_trial\<lparr> choices := ALL_KEYS, grid_rows := None \<rparr>) [] (ms 0)) \<and>
   \<not> isl (trial example_browser (example_trial\<lparr> choices := NO_KEYS, grid_rows := None \<rparr>) [] (ms 0)) \<and>
   \<not> isl (render example_browser (example_trial\<lparr> choices := Null_choices, grid_rows := None \<rparr>) []) \<and>
   trial example_browser (example_trial\<lparr> choices := Null_choices, grid_rows := None \<rparr>) [] (ms 0) =
     Inl (TypeError,
          \<lparr> display_element = [Stimulus_ref],
            stimulusElement = Element ''div'' stimulus_id [] [] [] [Text ''this is html''],
            buttonGroupElement = None,
            click_listeners = [], timeouts = [], keyboard = None, finished = [] \<rparr>)"
proof -
  define p1 where "p1 = example_trial\<lparr> show_button := False, grid_rows := None \<rparr>"
  define p2 where "p2 = example_trial\<lparr> choices := ALL_KEYS, grid_rows := None \<rparr>"
  define p3 where "p3 = example_trial\<lparr> choices := NO_KEYS, grid_rows := None \<rparr>"
  define p4 where "p4 = example_trial\<lparr> choices := Null_choices, grid_rows := None \<rparr>"
  have h1: "\<not> show_button p1 \<or> choices p1 = ALL_KEYS \<or> choices p1 = NO_KEYS \<or> choices p1 = Null_choices"
    and n1: "choices p1 \<noteq> Null_choices"
    and g1: "\<not> show_button p1 \<and> button_layout p1 = ''grid'' \<and> grid_rows p1 = None \<and> grid_columns p1 = None"
    by (simp_all add: p1_def example_trial_def default_params_def)
  have h2: "\<not> show_button p2 \<or> choices p2 = ALL_KEYS \<or> choices p2 = NO_KEYS \<or> choices p2 = Null_choices"
    and n2: "choices p2 \<noteq> Null_choices"
    by (simp_all add: p2_def)
  have h3: "\<not> show_button p3 \<or> choices p3 = ALL_KEYS \<or> choices p3 = NO_KEYS \<or> choices p3 = Null_choices"
    and n3: "choices p3 \<noteq> Null_choices"
    by (simp_all add: p3_def)
  have h4: "\<not> show_button p4 \<or> choices p4 = ALL_KEYS \<or> choices p4 = NO_KEYS \<or> choices p4 = Null_choices"
    and n4: "choices p4 = Null_choices"
    by (simp_all add: p4_def)
  note t1 = C10_grid_check_needs_buttons[OF h1, of example_browser "[]" "ms 0"]
  note t2 = C10_grid_check_needs_buttons[OF h2, of example_browser "[]" "ms 0"]
  note t3 = C10_grid_check_needs_buttons[OF h3, of example_browser "[]" "ms 0"]
  note t4 = C10_grid_check_needs_buttons[OF h4, of example_browser "[]" "ms 0"]
  have r1: "\<not> isl (render example_browser p1 [])"
    using t1 by simp
  have i1: "\<not> isl (trial example_browser p1 [] (ms 0))"
    using t1 n1 by blast
  have i2: "\<not> isl (trial example_browser p2 [] (ms 0))"
    using t2 n2 by blast
  have i3: "\<not> isl (trial example_browser p3 [] (ms 0))"
    using t3 n3 by blast
  have r4: "\<not> isl (render example_browser p4 [])"
    using t4 by simp
  have pg: "show_prompt example_browser p4
        (disable_buttons example_browser p4 (display_stimulus example_browser p4 [])) =
      \<lparr> display_element = [Stimulus_ref],
        stimulusElement = Element ''div'' stimulus_id [] [] [] [Text ''this is html''],
        buttonGroupElement = None,
        click_listeners = [], timeouts = [], keyboard = None, finished = [] \<rparr>"
    by (simp add: p4_def example_defs show_prompt_def disable_buttons_def display_stimulus_def
          set_innerHTML_def createElement_def)
  have "trial example_browser p4 [] (ms 0) =
      Inl (TypeError, show_prompt example_browser p4
        (disable_buttons example_browser p4 (display_stimulus example_browser p4 [])))"
    using t4 n4 by blast
  then have i4: "trial example_browser p4 [] (ms 0) =
      Inl (TypeError,
        \<lparr> display_element = [Stimulus_ref],
          stimulusElement = Element ''div'' stimulus_id [] [] [] [Text ''this is html''],
          buttonGroupElement = None,
          click_listeners = [], timeouts = [], keyboard = None, finished = [] \<rparr>)"
    by (simp only: pg)
  from g1 r1 i1 i2 i3 r4 i4 show ?thesis
    unfolding p1_def p2_def p3_def p4_def by blast
qed

subsection \<open>C7: the trial-duration timeout\<close>

text \<open>
  C7: if \<^verbatim>\<open>trial_duration\<close> is not null, \<^verbatim>\<open>trial\<close> sets exactly one timeout for
  \<^verbatim>\<open>end_trial\<close>, with the trial duration as its delay. When it fires with no response
  given, the one result handed to jsPsych has a null response and a null rt and the
  trial's stimulus; and whenever it fires, in whatever state, \<^verbatim>\<open>end_trial\<close> hands over
  the response record as it is.
\<close>

theorem C7_trial_duration_ends_trial:
  "trial_duration p = Some d \<Longrightarrow> trial e p pre now = Inr w \<Longrightarrow>
     filter (\<lambda>t. fst t = End_trial) (timeouts w) = [(End_trial, d)] \<and>
     finished (step e p w (Timeout End_trial)) =
       [\<lparr> data_rt = None, data_stimulus = stimulus p, data_response = None \<rparr>] \<and>
     (\<forall>s. End_trial \<in> fst ` set (timeouts s) \<longrightarrow>
        finished (step e p s (Timeout End_trial)) =
          finished s @ [\<lparr> data_rt = rt (response s), data_stimulus = stimulus p,
                           data_response = key (response s) \<rparr>])"
  by (auto simp: trial_timeouts end_trial_fields dest!: trial_closure split: option.splits)

text \<open>The theorem at work: the trial with a duration of 500 ms and no response.\<close>

theorem C7_witness:
  "trial_duration example_timed_trial = Some 500 \<and>
   \<not> isl (trial example_browser example_timed_trial [] (ms 0)) \<and>
   filter (\<lambda>t. fst t = End_trial)
     (timeouts (projr (trial example_browser example_timed_trial [] (ms 0)))) = [(End_trial, 500)] \<and>
   finished (step example_browser example_timed_trial
      (projr (trial example_browser example_timed_trial [] (ms 0))) (Timeout End_trial)) =
     [\<lparr> data_rt = None, data_stimulus = ''this is html'', data_response = None \<rparr>]"
proof -
  have d: "trial_duration example_timed_trial = Some 500" by (simp add: example_defs)
  have r: "\<not> isl (trial example_browser example_timed_trial [] (ms 0))" by code_simp
  then have w: "trial example_browser example_timed_trial [] (ms 0) =
      Inr (projr (trial example_browser example_timed_trial [] (ms 0)))"
    by (cases "trial example_browser example_timed_trial [] (ms 0)") simp_all
  have s: "stimulus example_timed_trial = ''this is html''" by (simp add: example_defs)
  show ?thesis
    using C7_trial_duration_ends_trial[OF d w] d r s by simp
qed

subsection \<open>C8: visual simulation\<close>

text \<open>
  C8: in visual mode \<^verbatim>\<open>simulate\<close> does four things in this order. It creates the
  simulation data: the stimulus of the trial, a reaction time sampled by
  \<^verbatim>\<open>sampleExGaussian(500, 50, 1 / 150, true)\<close> and a key from \<^verbatim>\<open>getValidKey\<close>, merged with
  the simulation options and made consistent with the trial. It runs \<^verbatim>\<open>trial\<close> on
  jsPsych's display element. It calls the load callback. It calls \<^verbatim>\<open>pluginAPI.pressKey\<close>
  with the response and the rt of the data, the rt as the delay; when that rt is null it
  presses no key. It hands nothing to \<^verbatim>\<open>jsPsych.finishTrial\<close> itself. An exception of
  \<^verbatim>\<open>trial\<close> leaves \<^verbatim>\<open>simulate\<close> at once, the data created and nothing else done.
\<close>

theorem C8_simulate_visual:
  "simulate e js p ''visual'' simulation_options now =
     (let data = ensureSimulationDataConsistency js p
                   (mergeSimulationData js
                      \<lparr> data_rt = Some (sampleExGaussian js 500 50 (1 / 150) True),
                        data_stimulus = stimulus p,
                        data_response = getValidKey js (choices p) \<rparr>
                      simulation_options)
      in case trial e p (getDisplayElement js) now of
           Inl err \<Rightarrow> \<lparr> actions = [Data_created data], raised = Some err \<rparr>
         | Inr w \<Rightarrow>
             \<lparr> actions = [Data_created data, Trial_run w, Load_callback] @
                           (case data_rt data of
                              None \<Rightarrow> []
                            | Some t \<Rightarrow> [Press_key (data_response data) t]),
               raised = None \<rparr>)"
  by (simp add: simulate_def simulate_visual_def create_simulation_data_def Let_def
        split: sum.splits option.splits)

text \<open>
  The theorem at work on the two-key trial. With no simulation options the data are the
  sampled 523.5 ms and the key \<^verbatim>\<open>f\<close>, and that key is pressed with that delay; delivered
  to the trial at that time, it ends the trial with the response \<^verbatim>\<open>f\<close> and the rt 524.
  With the option of a null rt no key is pressed. With a grid layout and no grid sizes
  \<^verbatim>\<open>trial\<close> raises, and neither the load callback nor a key follows.
\<close>

theorem C8_witness:
  "\<not> isl (trial example_browser example_trial [] (ms 0)) \<and>
   simulate example_browser example_jsPsych example_trial ''visual'' None (ms 0) =
     \<lparr> actions =
         [Data_created \<lparr> data_rt = Some (1047 / 2), data_stimulus = ''this is html'',
                         data_response = Some ''f'' \<rparr>,
          Trial_run (projr (trial example_browser example_trial [] (ms 0))),
          Load_callback,
          Press_key (Some ''f'') (1047 / 2)],
       raised = None \<rparr> \<and>
   finished (run example_browser example_trial (projr (trial example_browser example_trial [] (ms 0)))
       [Key_down ''f'' (Some 524) (Double 1047 (- 1))]) =
     [\<lparr> data_rt = Some 524, data_stimulus = ''this is html'', data_response = Some ''f'' \<rparr>] \<and>
   simulate example_browser example_jsPsych example_trial ''visual'' (Some None) (ms 0) =
     \<lparr> actions =
         [Data_created \<lparr> data_rt = None, data_stimulus = ''this is html'',
                         data_response = Some ''f'' \<rparr>,
          Trial_run (projr (trial example_browser example_trial [] (ms 0))),
          Load_callback],
       raised = None \<rparr> \<and>
   actions (simulate example_browser example_jsPsych (example_trial\<lparr> grid_rows := None \<rparr>)
       ''visual'' None (ms 0)) =
     [Data_created \<lparr> data_rt = Some (1047 / 2), data_stimulus = ''this is html'',
                     data_response = Some ''f'' \<rparr>] \<and>
   map_option fst (raised (simulate example_browser example_jsPsych
       (example_trial\<lparr> grid_rows := None \<rparr>) ''visual'' None (ms 0))) = Some (Error grid_error)"
proof -
  define w where "w = projr (trial example_browser example_trial [] (ms 0))"
  have r: "\<not> isl (trial example_browser example_trial [] (ms 0))"
    by code_simp
  then have tr: "trial example_browser example_trial [] (ms 0) = Inr w"
    unfolding w_def by (cases "trial example_browser example_trial [] (ms 0)") simp_all
  have g: "trial example_browser (example_trial\<lparr> grid_rows := None \<rparr>) [] (ms 0) =
      Inl (Error grid_error,
          \<lparr> display_element = [Stimulus_ref],
            stimulusElement = Element ''div'' stimulus_id [] [] [] [Text ''this is html''],
            buttonGroupElement =
              Some (Element ''div'' ''jspsych-html-button-response-btngroup''
                      [''jspsych-btn-group-grid''] [] [] []),
            click_listeners = [], timeouts = [], keyboard = None, finished = [] \<rparr>)"
    by (simp add: trial_defs example_defs)
  have f: "finished (run example_browser example_trial w
       [Key_down ''f'' (Some 524) (Double 1047 (- 1))]) =
     [\<lparr> data_rt = Some 524, data_stimulus = ''this is html'', data_response = Some ''f'' \<rparr>]"
    unfolding w_def by code_simp
  have js: "getDisplayElement example_jsPsych = []"
    by (simp add: example_jsPsych_def)
  have 1: "simulate example_browser example_jsPsych example_trial ''visual'' None (ms 0) =
     \<lparr> actions =
         [Data_created \<lparr> data_rt = Some (1047 / 2), data_stimulus = ''this is html'',
                         data_response = Some ''f'' \<rparr>,
          Trial_run w, Load_callback, Press_key (Some ''f'') (1047 / 2)],
       raised = None \<rparr>"
    using C8_simulate_visual[of example_browser example_jsPsych example_trial None "ms 0"]
    by (simp add: js tr) (simp add: example_jsPsych_def example_trial_def default_params_def)
  have 2: "simulate example_browser example_jsPsych example_trial ''visual'' (Some None) (ms 0) =
     \<lparr> actions =
         [Data_created \<lparr> data_rt = None, data_stimulus = ''this is html'',
                         data_response = Some ''f'' \<rparr>,
          Trial_run w, Load_callback],
       raised = None \<rparr>"
    using C8_simulate_visual[of example_browser example_jsPsych example_trial "Some None" "ms 0"]
    by (simp add: js tr) (simp add: example_jsPsych_def example_trial_def default_params_def)
  have 3: "simulate example_browser example_jsPsych (example_trial\<lparr> grid_rows := None \<rparr>)
       ''visual'' None (ms 0) =
     \<lparr> actions = [Data_created \<lparr> data_rt = Some (1047 / 2), data_stimulus = ''this is html'',
                     data_response = Some ''f'' \<rparr>],
       raised = Some (Error grid_error,
          \<lparr> display_element = [Stimulus_ref],
            stimulusElement = Element ''div'' stimulus_id [] [] [] [Text ''this is html''],
            buttonGroupElement =
              Some (Element ''div'' ''jspsych-html-button-response-btngroup''
                      [''jspsych-btn-group-grid''] [] [] []),
            click_listeners = [], timeouts = [], keyboard = None, finished = [] \<rparr>) \<rparr>"
    using C8_simulate_visual[of example_browser example_jsPsych "example_trial\<lparr> grid_rows := None \<rparr>"
        None "ms 0"]
    by (simp add: js g) (simp add: example_jsPsych_def example_trial_def default_params_def)
  from r f 1 2 3 show ?thesis unfolding w_def by simp
qed

subsection \<open>C9: a late response changes the reaction time\<close>

text \<open>
  C9: when \<^verbatim>\<open>after_response\<close> is called with a response already recorded, the key stays
  and the rt becomes \<^verbatim>\<open>Math.round\<close> of the difference, as doubles, between the clock of
  this later call and the clock at the start of the trial. \<^verbatim>\<open>Math.round\<close> of a double is
  the floor of its value plus one half, and the difference of two doubles is their exact
  difference where that has no more than 53 bits.
\<close>

theorem C9_late_response_changes_rt:
  "key (response s) = Some k \<Longrightarrow>
   response (after_response p info end_time s) =
     \<lparr> rt = Some (of_int (Math_round (double_minus end_time (start_time s)))), key = Some k \<rparr> \<and>
   Math_round d = \<lfloor>real_of_double d + 1 / 2\<rfloor> \<and>
   (\<bar>m1 * 2 ^ nat (e1 - min e1 e2) - m2 * 2 ^ nat (e2 - min e1 e2)\<bar> < 2 ^ 53 \<longrightarrow>
      real_of_double (double_minus (Double m1 e1) (Double m2 e2)) =
        real_of_double (Double m1 e1) - real_of_double (Double m2 e2))"
proof -
  assume k: "key (response s) = Some k"
  have "response (after_response p info end_time s) =
     \<lparr> rt = Some (of_int (Math_round (double_minus end_time (start_time s)))), key = Some k \<rparr>"
    using after_response_fields(1,2)[of p info end_time s] k
    by (cases "response (after_response p info end_time s)") simp
  then show ?thesis
    using Math_round_nearest[of d] double_minus_exact[of m1 e1 e2 m2] by blast
qed

text \<open>
  The theorem at work: with \<^verbatim>\<open>response_ends_trial: false\<close>, the trial starts when the
  clock reads the double 0.1, the button \<^verbatim>\<open>f\<close> is clicked at 100.25 and the key \<^verbatim>\<open>j\<close>
  pressed at the double 200.6. The key stays \<^verbatim>\<open>f\<close>; the rt, 100 after the click, is 201
  after the key: the difference of the two doubles is the double 200.5, though the
  doubles themselves are 200.49999... apart. A difference that is exact: 700.75 - 0.5.
  Two ties, which go to the even mantissa: \<open>2 ^ 53 + 2 - 1\<close> is \<open>2 ^ 53\<close>, and
  \<open>2 ^ 53 + 4 - 1\<close> is \<open>2 ^ 53 + 4\<close>.
\<close>

theorem C9_witness:
  "real_of_double (double_minus (Double 2803 (- 2)) (Double 1 (- 1))) = 2801 / 4 \<and>
   double_minus (Double 9007199254740994 0) (ms 1) = Double 4503599627370496 1 \<and>
   double_minus (Double 9007199254740996 0) (ms 1) = Double 4503599627370498 1 \<and>
   real_of_double (Double 7057985041019699 (- 45)) - real_of_double (Double 3602879701896397 (- 55)) < 401 / 2 \<and>
   real_of_double (double_minus (Double 7057985041019699 (- 45)) (Double 3602879701896397 (- 55))) = 401 / 2 \<and>
   response (step example_browser example_open_trial
       (projr (trial example_browser example_open_trial [] (Double 3602879701896397 (- 55))))
       (Click 0 (Double 401 (- 2)))) = \<lparr> rt = Some 100, key = Some ''f'' \<rparr> \<and>
   response (after_response example_open_trial \<lparr> rt = Some 201, key = Some ''j'' \<rparr>
       (Double 7057985041019699 (- 45))
       (step example_browser example_open_trial
         (projr (trial example_browser example_open_trial [] (Double 3602879701896397 (- 55))))
         (Click 0 (Double 401 (- 2))))) =
     \<lparr> rt = Some 201, key = Some ''f'' \<rparr>"
proof -
  define s where "s = step example_browser example_open_trial
       (projr (trial example_browser example_open_trial [] (Double 3602879701896397 (- 55))))
       (Click 0 (Double 401 (- 2)))"
  have a: "real_of_double (Double 7057985041019699 (- 45)) -
      real_of_double (Double 3602879701896397 (- 55)) < 401 / 2"
    by simp
  have b: "double_minus (Double 7057985041019699 (- 45)) (Double 3602879701896397 (- 55)) =
      Double 7054466603810816 (- 45)"
    by code_simp
  have c: "real_of_double (Double 7054466603810816 (- 45)) = 401 / 2"
    by simp
  have r: "response s = \<lparr> rt = Some 100, key = Some ''f'' \<rparr>"
    unfolding s_def by code_simp
  then have k: "key (response s) = Some ''f''"
    by simp
  have t: "start_time s = Double 3602879701896397 (- 55)"
    unfolding s_def by code_simp
  have m: "Math_round (Double 7054466603810816 (- 45)) = 201"
    by code_simp
  have "response s = \<lparr> rt = Some 100, key = Some ''f'' \<rparr> \<and>
      response (after_response example_open_trial \<lparr> rt = Some 201, key = Some ''j'' \<rparr>
        (Double 7057985041019699 (- 45)) s) = \<lparr> rt = Some 201, key = Some ''f'' \<rparr>"
    using C9_late_response_changes_rt[OF k, of example_open_trial
        "\<lparr> rt = Some 201, key = Some ''j'' \<rparr>" "Double 7057985041019699 (- 45)"] r
    by (simp only: t b m) simp
  moreover have "real_of_double (double_minus (Double 2803 (- 2)) (Double 1 (- 1))) = 2801 / 4"
    using C9_late_response_changes_rt[OF k, where ?m1.0 = 2803 and ?e1.0 = "- 2"
        and ?m2.0 = 1 and ?e2.0 = "- 1"]
    by simp
  moreover have "double_minus (Double 9007199254740994 0) (ms 1) = Double 4503599627370496 1"
    and "double_minus (Double 9007199254740996 0) (ms 1) = Double 4503599627370498 1"
    by code_simp+
  ultimately show ?thesis using a b c unfolding s_def by simp
qed

end
